theory Spec2Isabelle
  imports Complex_Main
begin

section \<open>JavaScript numbers\<close>

text \<open>
  A JavaScript number is an IEEE 754 double: a finite value, an infinity or NaN. A finite
  double is held as the real number it stands for. The zero has no sign here: the code
  modelled below never divides by a value that can be zero, the one place where the sign
  of a zero shows.
\<close>

datatype number = Fin real | PInf | NInf | NaN

text \<open>\<open>pow2 k\<close> is \<open>2^k\<close>, for an integer \<open>k\<close> of either sign.\<close>

definition pow2 :: "int \<Rightarrow> real" where
  "pow2 k = power_int 2 k"

text \<open>
  The exponent of the binade of \<open>x\<close>: the \<open>e\<close> with \<open>2^e \<le> |x| < 2^(e+1)\<close>, and
  \<open>-1022\<close> for the subnormal numbers below that.
\<close>

definition expo :: "real \<Rightarrow> int" where
  "expo x = max (- 1022) \<lfloor>log 2 \<bar>x\<bar>\<rfloor>"

text \<open>The nearest integer, a tie going to the even one.\<close>

definition round_even :: "real \<Rightarrow> int" where
  "round_even q =
     (let f = \<lfloor>q\<rfloor>; r = q - of_int f
      in if r < 1 / 2 then f else if r > 1 / 2 then f + 1 else if even f then f else f + 1)"

text \<open>
  Rounding to nearest, ties to even, with a significand of 53 bits: the doubles of the
  binade of \<open>x\<close> are the multiples of \<open>2^(e-52)\<close>, and \<open>x\<close> goes to the nearest
  of them.
\<close>

definition flr :: "real \<Rightarrow> real" where
  "flr x = (if x = 0 then 0
            else of_int (round_even (x / pow2 (expo x - 52))) * pow2 (expo x - 52))"

text \<open>The double that an exact result \<open>x\<close> is stored as; it overflows to an infinity.\<close>

definition fl :: "real \<Rightarrow> number" where
  "fl x = (let y = flr x
           in if y \<ge> pow2 1024 then PInf else if y \<le> - pow2 1024 then NInf else Fin y)"

text \<open>The finite doubles: a significand below \<open>2^53\<close> times a power of two in range.\<close>

definition is_double :: "real \<Rightarrow> bool" where
  "is_double c \<longleftrightarrow> (\<exists>n k. \<bar>n\<bar> < 2 ^ 53 \<and> - 1074 \<le> k \<and> k \<le> 971 \<and> c = of_int n * pow2 k)"

text \<open>The sign of a number that is not NaN.\<close>

fun sign_of :: "number \<Rightarrow> int" where
  "sign_of (Fin x) = (if x > 0 then 1 else if x < 0 then - 1 else 0)"
| "sign_of PInf = 1"
| "sign_of NInf = - 1"
| "sign_of NaN = 0"

text \<open>The operators \<open>+\<close>, \<open>-\<close>, \<open>*\<close> and \<open>/\<close> on numbers.\<close>

fun jadd :: "number \<Rightarrow> number \<Rightarrow> number" where
  "jadd (Fin a) (Fin b) = fl (a + b)"
| "jadd NaN _ = NaN"
| "jadd _ NaN = NaN"
| "jadd PInf NInf = NaN"
| "jadd NInf PInf = NaN"
| "jadd PInf _ = PInf"
| "jadd _ PInf = PInf"
| "jadd NInf _ = NInf"
| "jadd _ NInf = NInf"

fun jsub :: "number \<Rightarrow> number \<Rightarrow> number" where
  "jsub (Fin a) (Fin b) = fl (a - b)"
| "jsub NaN _ = NaN"
| "jsub _ NaN = NaN"
| "jsub PInf PInf = NaN"
| "jsub NInf NInf = NaN"
| "jsub PInf _ = PInf"
| "jsub _ PInf = NInf"
| "jsub NInf _ = NInf"
| "jsub _ NInf = PInf"

fun jmul :: "number \<Rightarrow> number \<Rightarrow> number" where
  "jmul (Fin a) (Fin b) = fl (a * b)"
| "jmul NaN _ = NaN"
| "jmul _ NaN = NaN"
| "jmul a b =
     (if sign_of a * sign_of b = 0 then NaN
      else if sign_of a * sign_of b > 0 then PInf else NInf)"

fun jdiv :: "number \<Rightarrow> number \<Rightarrow> number" where
  "jdiv (Fin a) (Fin b) =
     (if b \<noteq> 0 then fl (a / b)
      else if a = 0 then NaN else if a > 0 then PInf else NInf)"
| "jdiv NaN _ = NaN"
| "jdiv _ NaN = NaN"
| "jdiv (Fin a) _ = Fin 0"
| "jdiv a (Fin b) = (if (sign_of a > 0) = (b \<ge> 0) then PInf else NInf)"
| "jdiv _ _ = NaN"

text \<open>The comparisons \<open><\<close>, \<open>>\<close>, \<open><=\<close> and \<open>>=\<close>: false when an operand is NaN.\<close>

fun jlt :: "number \<Rightarrow> number \<Rightarrow> bool" where
  "jlt (Fin a) (Fin b) = (a < b)"
| "jlt NaN _ = False"
| "jlt _ NaN = False"
| "jlt PInf _ = False"
| "jlt _ NInf = False"
| "jlt _ _ = True"

definition jgt :: "number \<Rightarrow> number \<Rightarrow> bool" where
  "jgt a b = jlt b a"

definition jle :: "number \<Rightarrow> number \<Rightarrow> bool" where
  "jle a b = (a \<noteq> NaN \<and> b \<noteq> NaN \<and> \<not> jlt b a)"

definition jge :: "number \<Rightarrow> number \<Rightarrow> bool" where
  "jge a b = jle b a"

text \<open>\<open>Math.round\<close>: the nearest integer, a tie going up.\<close>

fun Math_round :: "number \<Rightarrow> number" where
  "Math_round (Fin x) = Fin (of_int \<lfloor>x + 1 / 2\<rfloor>)"
| "Math_round n = n"

text \<open>\<open>Math.min\<close> of two numbers.\<close>

definition Math_min :: "number \<Rightarrow> number \<Rightarrow> number" where
  "Math_min a b = (if a = NaN \<or> b = NaN then NaN else if jlt b a then b else a)"

text \<open>Truthiness of a number, as \<open>if (x)\<close>, \<open>!x\<close> and \<open>||\<close> test it: 0 and NaN are falsy.\<close>

definition truthy_number :: "number \<Rightarrow> bool" where
  "truthy_number n \<longleftrightarrow> n \<noteq> NaN \<and> n \<noteq> Fin 0"

text \<open>
  A numeric field of a record that may be empty: \<open>None\<close> stands for \<open>null\<close> or
  \<open>false\<close> (how the gateway reports an empty field), and for \<open>undefined\<close> where
  the code only tests the field or reads it through \<open>||\<close>.
\<close>

type_synonym field = "number option"

definition truthy_field :: "field \<Rightarrow> bool" where
  "truthy_field x = (case x of None \<Rightarrow> False | Some n \<Rightarrow> truthy_number n)"

text \<open>\<open>x || d\<close> on a numeric field.\<close>

definition or_else :: "field \<Rightarrow> number \<Rightarrow> number" where
  "or_else x d = (if truthy_field x then the x else d)"


text \<open>The idiom \<open>Math.round(x * 100) / 100\<close> of the dashboard.\<close>

definition round2 :: "number \<Rightarrow> number" where
  "round2 x = jdiv (Math_round (jmul x (Fin 100))) (Fin 100)"

section \<open>Analytics dashboard: \<open>calculateKPIs\<close>\<close>

record analytics_row =
  total_visits :: field
  total_revenue :: field
  completion_rate :: field
  target_visits :: field

text \<open>
  An element of \<open>state.analytics\<close> is a row object, or \<open>null\<close>/\<open>undefined\<close>
  (\<open>None\<close>): reading a property of the latter throws a TypeError.
\<close>

type_synonym analytics_item = "analytics_row option"

record kpis =
  totalVisits :: number
  avgCompletionRate :: number
  totalRevenue :: number
  avgRevenueAchievement :: number
  growthRate :: number
  targetAchievement :: number

record dashboard_state =
  analytics :: "analytics_item list"
  kpis :: kpis

definition zero_kpis :: kpis where
  "zero_kpis = \<lparr> totalVisits = Fin 0, avgCompletionRate = Fin 0, totalRevenue = Fin 0,
                 avgRevenueAchievement = Fin 0, growthRate = Fin 0, targetAchievement = Fin 0 \<rparr>"

text \<open>
  \<open>analytics.reduce((sum, item) => sum + (item.f || 0), acc)\<close>. The result is \<open>None\<close>
  when the callback throws, which it does at the first element that is not an object.
\<close>

fun reduce_field :: "(analytics_row \<Rightarrow> field) \<Rightarrow> analytics_item list \<Rightarrow> number \<Rightarrow> number option" where
  "reduce_field f [] acc = Some acc"
| "reduce_field f (None # items) acc = None"
| "reduce_field f (Some item # items) acc =
     reduce_field f items (jadd acc (or_else (f item) (Fin 0)))"

text \<open>\<open>analytics[i].total_visits || 0\<close>; throws when the element is not an object.\<close>

definition visits_at :: "analytics_item list \<Rightarrow> nat \<Rightarrow> number option" where
  "visits_at items i =
     (if i < length items
      then (case items ! i of
              None \<Rightarrow> None
            | Some item \<Rightarrow> Some (or_else (total_visits item) (Fin 0)))
      else None)"

text \<open>The growth-rate block (lines 332 to 339).\<close>

definition growth_block :: "analytics_item list \<Rightarrow> number option" where
  "growth_block items =
     (if length items \<ge> 2 then
        (case visits_at items 0 of
           None \<Rightarrow> None
         | Some firstPeriod \<Rightarrow>
             (case visits_at items (length items - 1) of
                None \<Rightarrow> None
              | Some lastPeriod \<Rightarrow>
                  Some (if jgt firstPeriod (Fin 0)
                        then jmul (jdiv (jsub lastPeriod firstPeriod) firstPeriod) (Fin 100)
                        else Fin 0)))
      else Some (Fin 0))"

text \<open>
  The body of the \<open>try\<close> block: \<open>None\<close> when an exception leaves it, else the object
  that the block assigns to \<open>state.kpis\<close> in its last statement. The literal \<open>1.2\<close> is
  the double nearest to it.
\<close>

definition kpis_try :: "analytics_item list \<Rightarrow> kpis option" where
  "kpis_try items =
     (case reduce_field total_visits items (Fin 0) of None \<Rightarrow> None | Some tv \<Rightarrow>
      case reduce_field total_revenue items (Fin 0) of None \<Rightarrow> None | Some tr \<Rightarrow>
      case reduce_field completion_rate items (Fin 0) of None \<Rightarrow> None | Some cr \<Rightarrow>
      case growth_block items of None \<Rightarrow> None | Some gr \<Rightarrow>
      case reduce_field target_visits items (Fin 0) of None \<Rightarrow> None | Some totalTarget \<Rightarrow>
        (let avgCR = jdiv cr (Fin (real (length items)));
             ta = (if jgt totalTarget (Fin 0) then jmul (jdiv tv totalTarget) (Fin 100) else Fin 0)
         in Some \<lparr> totalVisits = tv,
                   avgCompletionRate = round2 avgCR,
                   totalRevenue = tr,
                   avgRevenueAchievement =
                     (if jgt tr (Fin 0)
                      then Math_round (jmul (jdiv tr (jmul tr (fl 1.2))) (Fin 100))
                      else Fin 0),
                   growthRate = round2 gr,
                   targetAchievement = round2 ta \<rparr>))"

definition calculateKPIs :: "dashboard_state \<Rightarrow> dashboard_state" where
  "calculateKPIs s =
     (if analytics s = [] then s\<lparr> kpis := zero_kpis \<rparr>
      else (case kpis_try (analytics s) of
              Some k \<Rightarrow> s\<lparr> kpis := k \<rparr>
            | None \<Rightarrow> s\<lparr> kpis := zero_kpis \<rparr>))"


text \<open>
  The words of the specification. A field counts as 0 when it is absent (or NaN, which
  is no number); a sum is added up from the left, as numbers are; and a number is rounded
  to two decimal places when the result is the double of a whole number of hundredths,
  half a hundredth from the number at most, up to the rounding of one multiplication.
\<close>

definition field_or_zero :: "field \<Rightarrow> number" where
  "field_or_zero x = (case x of None \<Rightarrow> Fin 0 | Some NaN \<Rightarrow> Fin 0 | Some n \<Rightarrow> n)"





definition visits_row :: "real \<Rightarrow> analytics_row" where
  "visits_row v = \<lparr> total_visits = Some (Fin v), total_revenue = None,
                    completion_rate = None, target_visits = None \<rparr>"



section \<open>Visit tracker: tracking points\<close>

text \<open>
  A tracking point. The filter only tests its fields and compares them with constants, so
  that a field is held as the real number it stands for: \<open>None\<close> is \<open>null\<close> or
  \<open>false\<close>, how the gateway reports an empty field.
\<close>

type_synonym jsnum = "real option"

text \<open>Truthiness of such a field, as \<open>!x\<close> and \<open>&&\<close> test it: absent and 0 are falsy.\<close>

definition truthy :: "jsnum \<Rightarrow> bool" where
  "truthy x = (case x of None \<Rightarrow> False | Some v \<Rightarrow> v \<noteq> 0)"

record geo_point =
  latitude :: jsnum
  longitude :: jsnum
  accuracy :: jsnum

text \<open>A numeric field in a comparison or in arithmetic: \<open>null\<close> and \<open>false\<close> count as 0.\<close>

definition num :: "jsnum \<Rightarrow> real" where
  "num x = (case x of None \<Rightarrow> 0 | Some v \<Rightarrow> v)"

text \<open>The callback that \<open>validateTrackingData\<close> passes to \<open>filter\<close>.\<close>

definition valid_point :: "geo_point \<Rightarrow> bool" where
  "valid_point point =
     (if \<not> truthy (latitude point) \<or> \<not> truthy (longitude point) then False
      else if num (latitude point) < - 90 \<or> num (latitude point) > 90 \<or>
              num (longitude point) < - 180 \<or> num (longitude point) > 180 then False
      else if truthy (accuracy point) \<and> num (accuracy point) > 1000 then False
      else True)"

definition validateTrackingData :: "geo_point list \<Rightarrow> geo_point list" where
  "validateTrackingData data = filter valid_point data"

text \<open>
  The retention rule in the words of the specification: both coordinates present and in
  range, the accuracy, when present, at most 1000.
\<close>

definition spec_retained :: "geo_point \<Rightarrow> bool" where
  "spec_retained point =
     (case (latitude point, longitude point) of
        (Some lat, Some lng) \<Rightarrow>
          - 90 \<le> lat \<and> lat \<le> 90 \<and> - 180 \<le> lng \<and> lng \<le> 180 \<and>
          (case accuracy point of None \<Rightarrow> True | Some acc \<Rightarrow> acc \<le> 1000)
      | _ \<Rightarrow> False)"

definition point_at :: "real \<Rightarrow> real \<Rightarrow> jsnum \<Rightarrow> geo_point" where
  "point_at lat lng acc = \<lparr> latitude = Some lat, longitude = Some lng, accuracy = acc \<rparr>"

section \<open>Visit tracker: progress and time status\<close>

text \<open>
  A value that a field of a visit record may hold. \<open>planned_time\<close> and
  \<open>actual_start_time\<close> reach \<open>new Date\<close> as they come: \<open>startVisit\<close> writes the hour
  of the day as a number into \<open>actual_start_time\<close>.
\<close>

datatype jsval = Undefined | Null | Bool bool | Num number | Str string

fun truthy_val :: "jsval \<Rightarrow> bool" where
  "truthy_val Undefined = False"
| "truthy_val Null = False"
| "truthy_val (Bool b) = b"
| "truthy_val (Num n) = truthy_number n"
| "truthy_val (Str s) = (s \<noteq> [])"

text \<open>
  What is taken as given: how \<open>Date\<close> parses a text that is not in the standard format
  (\<open>None\<close> when it does not parse) and how \<open>toDateString\<close> writes a day, which the
  language leaves to the host, and the text of a number in a template literal.
\<close>

record host =
  date_parse :: "string \<Rightarrow> int option"
  to_date_string :: "int \<Rightarrow> string"
  number_to_string :: "number \<Rightarrow> string"

text \<open>
  The time value of a \<open>Date\<close> is a whole number of milliseconds of magnitude at most
  \<open>8.64e15\<close>, or NaN (\<open>None\<close>), the Invalid Date.
\<close>

definition max_time :: int where
  "max_time = 8640000000000000"

definition clip_time :: "int option \<Rightarrow> int option" where
  "clip_time t = (case t of None \<Rightarrow> None | Some ms \<Rightarrow> if \<bar>ms\<bar> \<le> max_time then Some ms else None)"

text \<open>\<open>TimeClip\<close> of a number: a finite number in range, cut to a whole number towards 0.\<close>

fun TimeClip :: "number \<Rightarrow> int option" where
  "TimeClip (Fin x) =
     (if \<bar>x\<bar> \<le> of_int max_time then Some (if x \<ge> 0 then \<lfloor>x\<rfloor> else \<lceil>x\<rceil>) else None)"
| "TimeClip _ = None"

text \<open>\<open>new Date(value)\<close>, as its time value.\<close>

fun new_Date :: "host \<Rightarrow> jsval \<Rightarrow> int option" where
  "new_Date h (Str s) = clip_time (date_parse h s)"
| "new_Date h (Num n) = TimeClip n"
| "new_Date h (Bool b) = Some (if b then 1 else 0)"
| "new_Date h Null = Some 0"
| "new_Date h Undefined = None"

text \<open>A value in a template literal.\<close>

fun to_string :: "host \<Rightarrow> jsval \<Rightarrow> string" where
  "to_string h Undefined = ''undefined''"
| "to_string h Null = ''null''"
| "to_string h (Bool b) = (if b then ''true'' else ''false'')"
| "to_string h (Num n) = number_to_string h n"
| "to_string h (Str s) = s"

text \<open>A time value as a number, in a subtraction or a comparison of dates.\<close>

definition time_number :: "int option \<Rightarrow> number" where
  "time_number t = (case t of None \<Rightarrow> NaN | Some ms \<Rightarrow> Fin (of_int ms))"

record visit =
  state :: string
  planned_time :: jsval
  actual_start_time :: jsval
  duration :: field
  location_lat :: field
  location_lng :: field

text \<open>
  \<open>new Date(`${new Date().toDateString()} ${visit.planned_time}`)\<close>, the clock
  standing at \<open>now\<close>.
\<close>

definition planned_Date :: "host \<Rightarrow> int \<Rightarrow> visit \<Rightarrow> int option" where
  "planned_Date h now v =
     new_Date h (Str (to_date_string h now @ '' '' @ to_string h (planned_time v)))"

text \<open>\<open>(later - earlier) / 1000 / 60\<close>: a difference of two dates in minutes.\<close>

definition minutes_between :: "number \<Rightarrow> number \<Rightarrow> number" where
  "minutes_between later earlier = jdiv (jdiv (jsub later earlier) (Fin 1000)) (Fin 60)"

text \<open>The second argument is the clock, \<open>new Date()\<close>, a valid time value.\<close>

definition calculateVisitProgress :: "host \<Rightarrow> int \<Rightarrow> visit \<Rightarrow> number" where
  "calculateVisitProgress h now v =
     (if state v = ''completed'' then Fin 100
      else if state v = ''cancelled'' then Fin 0
      else if state v = ''in_progress'' \<and> truthy_val (actual_start_time v) then
        (let startTime = new_Date h (actual_start_time v);
             elapsed = minutes_between (Fin (of_int now)) (time_number startTime);
             expected = or_else (duration v) (Fin 60)
         in Math_min (jmul (jdiv elapsed expected) (Fin 100)) (Fin 95))
      else if state v = ''planned'' \<and>
              jgt (Fin (of_int now)) (time_number (planned_Date h now v))
      then Fin (- 1)
      else Fin 0)"

definition getVisitTimeStatus :: "host \<Rightarrow> int \<Rightarrow> visit \<Rightarrow> string" where
  "getVisitTimeStatus h now v =
     (if \<not> truthy_val (planned_time v) then ''unknown''
      else
        (let plannedTime = planned_Date h now v
         in if state v = ''completed'' \<and> truthy_val (actual_start_time v) then
              (let actualStart = new_Date h (actual_start_time v);
                   diffMinutes = minutes_between (time_number actualStart) (time_number plannedTime)
               in if jle diffMinutes (Fin (- 5)) then ''early''
                  else if jle diffMinutes (Fin 15) then ''on-time''
                  else ''late'')
            else if state v = ''planned'' then
              (let diffMinutes = minutes_between (Fin (of_int now)) (time_number plannedTime)
               in if jgt diffMinutes (Fin 15) then ''overdue''
                  else if jgt diffMinutes (Fin (- 30)) then ''upcoming''
                  else ''scheduled'')
            else state v))"

text \<open>
  A host for the examples: it writes every day as \<open>Tue Nov 03 2026\<close> and parses the
  time \<open>10:00\<close> on that day, which is 36000000 milliseconds into it, and nothing else. No
  example holds a number as planned time, so that the text of a number is never read.
\<close>

definition day_start :: int where
  "day_start = 1793664000000"

definition example_host :: host where
  "example_host =
     \<lparr> date_parse = (\<lambda>s. if s = ''Tue Nov 03 2026 10:00'' then Some (day_start + 36000000) else None),
       to_date_string = (\<lambda>t. ''Tue Nov 03 2026''),
       number_to_string = (\<lambda>n. ''NaN'') \<rparr>"

text \<open>Visits for the examples.\<close>

definition a_visit :: "string \<Rightarrow> jsval \<Rightarrow> jsval \<Rightarrow> field \<Rightarrow> visit" where
  "a_visit st planned started expected =
     \<lparr> state = st, planned_time = planned, actual_start_time = started,
       duration = expected, location_lat = None, location_lng = None \<rparr>"

section \<open>Visit tracker: distance and travel time\<close>


















section \<open>Notifications component\<close>

text \<open>An \<open>id\<close> is a number from the server, a text made by \<open>createNotification\<close>, or missing.\<close>

datatype jsid = IdNum int | IdStr string | IdUndefined

text \<open>
  A notification object. \<open>is_read\<close> is the truthiness of the flag, the only way the
  code reads it: a missing flag is \<open>False\<close>.
\<close>

record notification =
  notif_id :: jsid
  title :: string
  message :: string
  priority :: string
  is_read :: bool
  isNew :: bool
  timeAgo :: string

text \<open>
  The component: the fields of \<open>this.state\<close> that the operations below touch, and the
  properties \<open>reconnectAttempts\<close> and \<open>reconnectTimeout\<close>; the latter holds the
  delay, in milliseconds, of the timer set last.
\<close>

record component =
  notifications :: "notification list"
  unreadCount :: nat
  totalCount :: nat
  isLoading :: bool
  isConnected :: bool
  connectionStatus :: string
  error :: "string option"
  reconnectAttempts :: nat
  reconnectTimeout :: "nat option"

definition maxReconnectAttempts :: nat where
  "maxReconnectAttempts = 5"

definition initial_component :: component where
  "initial_component =
     \<lparr> notifications = [], unreadCount = 0, totalCount = 0, isLoading = False,
       isConnected = False, connectionStatus = ''disconnected'', error = None,
       reconnectAttempts = 0, reconnectTimeout = None \<rparr>"

text \<open>
  The outcome of an awaited gateway call; a rejection carries whether its message
  includes \<open>network\<close>.
\<close>

datatype 'a outcome = Resolved 'a | Rejected bool

text \<open>
  \<open>attemptReconnection\<close> returns the delay of the timer it has set, \<open>None\<close> when it
  has set none, and the component.
\<close>

definition attemptReconnection :: "component \<Rightarrow> nat option \<times> component" where
  "attemptReconnection c =
     (if reconnectAttempts c \<ge> maxReconnectAttempts then
        (None, c\<lparr> connectionStatus := ''error'' \<rparr>)
      else
        (let c1 = c\<lparr> reconnectAttempts := reconnectAttempts c + 1 \<rparr>;
             delay = min (1000 * 2 ^ reconnectAttempts c1) 30000
         in (Some delay, c1\<lparr> reconnectTimeout := Some delay \<rparr>)))"

text \<open>
  \<open>connectToBus\<close>, with whether subscribing throws: the result says whether the
  exception left the function.
\<close>

definition connectToBus :: "bool \<Rightarrow> component \<Rightarrow> bool \<times> component" where
  "connectToBus throws c =
     (let c1 = c\<lparr> connectionStatus := ''connecting'' \<rparr>
      in if throws then (True, c1\<lparr> connectionStatus := ''error'' \<rparr>) else (False, c1))"

text \<open>
  The listeners that \<open>connectToBus\<close> adds for the bus events \<open>connect\<close> and
  \<open>disconnect\<close>. The first is the only place that resets the counter.
\<close>

definition on_bus_connect :: "component \<Rightarrow> component" where
  "on_bus_connect c =
     c\<lparr> connectionStatus := ''connected'', isConnected := True, reconnectAttempts := 0 \<rparr>"

definition on_bus_disconnect :: "component \<Rightarrow> nat option \<times> component" where
  "on_bus_disconnect c =
     attemptReconnection (c\<lparr> connectionStatus := ''disconnected'', isConnected := False \<rparr>)"

text \<open>
  A chain of reconnections: \<open>attemptReconnection\<close> sets a timer, whose callback calls
  \<open>connectToBus\<close> and, when that throws, \<open>attemptReconnection\<close> again. The first
  argument says at which attempts \<open>connectToBus\<close> throws. The result is the list of
  the delays of the timers set, in order, and the component at the end.
\<close>

function reconnection_chain :: "(nat \<Rightarrow> bool) \<Rightarrow> component \<Rightarrow> nat list \<times> component" where
  "reconnection_chain throws c =
     (case attemptReconnection c of
        (None, c1) \<Rightarrow> ([], c1)
      | (Some delay, c1) \<Rightarrow>
          (case connectToBus (throws (reconnectAttempts c1)) c1 of
             (False, c2) \<Rightarrow> ([delay], c2)
           | (True, c2) \<Rightarrow>
               (case reconnection_chain throws c2 of (delays, c3) \<Rightarrow> (delay # delays, c3))))"
  by pat_completeness auto
termination
  by (relation "measure (\<lambda>(throws, c). maxReconnectAttempts - reconnectAttempts c)")
     (auto simp: attemptReconnection_def connectToBus_def Let_def split: if_splits)

declare reconnection_chain.simps [simp del]

text \<open>The delay that \<open>attemptReconnection\<close> computes once the counter has reached \<open>k\<close>.\<close>

definition backoff_delay :: "nat \<Rightarrow> nat" where
  "backoff_delay k = min (1000 * 2 ^ k) 30000"

definition updateUnreadCount :: "component \<Rightarrow> component" where
  "updateUnreadCount c =
     c\<lparr> unreadCount := length (filter (\<lambda>n. \<not> is_read n) (notifications c)) \<rparr>"

text \<open>
  \<open>handleError\<close>, as far as the component goes (it also shows a message): the argument
  says whether the error's message includes \<open>network\<close>.
\<close>

definition handleError :: "bool \<Rightarrow> component \<Rightarrow> component" where
  "handleError network c =
     (let c1 = c\<lparr> error := Some ''An error occurred in notifications. Please try refreshing.'',
                  connectionStatus := ''error'', isLoading := False \<rparr>
      in if network then snd (attemptReconnection c1) else c1)"

text \<open>
  \<open>loadNotifications\<close>, from the point where the awaited \<open>searchRead\<close> settles. The
  first two arguments are \<open>getTimeAgo\<close> and \<open>isRecentNotification\<close>, which read
  the clock.
\<close>

definition loadNotifications ::
  "(notification \<Rightarrow> string) \<Rightarrow> (notification \<Rightarrow> bool) \<Rightarrow>
   notification list outcome \<Rightarrow> component \<Rightarrow> component" where
  "loadNotifications getTimeAgo isRecent res c =
     (case res of
        Resolved rows \<Rightarrow>
          (let c1 = c\<lparr> notifications :=
                        map (\<lambda>notif. notif\<lparr> timeAgo := getTimeAgo notif, isNew := isRecent notif \<rparr>)
                            rows \<rparr>;
               c2 = c1\<lparr> totalCount := length (notifications c1) \<rparr>;
               c3 = updateUnreadCount c2
           in c3\<lparr> isLoading := False \<rparr>)
      | Rejected network \<Rightarrow> (handleError network c)\<lparr> isLoading := False \<rparr>)"

text \<open>
  \<open>addNewNotification\<close>, up to the call of \<open>showNotification\<close>, which leaves the
  component alone.
\<close>

definition addNewNotification :: "notification \<Rightarrow> component \<Rightarrow> component" where
  "addNewNotification notificationData c =
     (let n = notificationData\<lparr> timeAgo := ''Just now'', isNew := True \<rparr>
      in updateUnreadCount (c\<lparr> notifications := n # notifications c \<rparr>))"

text \<open>
  \<open>find\<close> returns the first element that satisfies the test, and the code then writes to
  that object: the list with the first such element changed.
\<close>

fun update_first :: "('a \<Rightarrow> bool) \<Rightarrow> ('a \<Rightarrow> 'a) \<Rightarrow> 'a list \<Rightarrow> 'a list" where
  "update_first P f [] = []"
| "update_first P f (x # xs) = (if P x then f x # xs else x # update_first P f xs)"

text \<open>\<open>markAsRead\<close>, from the point where the awaited \<open>write\<close> settles.\<close>

definition markAsRead :: "unit outcome \<Rightarrow> jsid \<Rightarrow> component \<Rightarrow> component" where
  "markAsRead res notificationId c =
     (case res of
        Resolved _ \<Rightarrow>
          updateUnreadCount
            (c\<lparr> notifications :=
                 update_first (\<lambda>n. notif_id n = notificationId)
                   (\<lambda>n. n\<lparr> is_read := True, isNew := False \<rparr>) (notifications c) \<rparr>)
      | Rejected _ \<Rightarrow> c)"

text \<open>
  \<open>markAllAsRead\<close> in its two parts: the ids collected before the \<open>write\<close> is awaited,
  and what runs when it settles, on the component as it is then.
\<close>

definition unreadIds :: "component \<Rightarrow> jsid list" where
  "unreadIds c = map notif_id (filter (\<lambda>n. \<not> is_read n) (notifications c))"

definition markAllAsRead_settled :: "unit outcome \<Rightarrow> jsid list \<Rightarrow> component \<Rightarrow> component" where
  "markAllAsRead_settled res ids c =
     (case res of
        Resolved _ \<Rightarrow>
          updateUnreadCount
            (c\<lparr> notifications :=
                 map (\<lambda>n. if notif_id n \<in> set ids then n\<lparr> is_read := True, isNew := False \<rparr> else n)
                     (notifications c) \<rparr>)
      | Rejected _ \<Rightarrow> c)"

definition markAllAsRead :: "unit outcome \<Rightarrow> component \<Rightarrow> component" where
  "markAllAsRead res c =
     (let ids = unreadIds c
      in if length ids > 0 then markAllAsRead_settled res ids c else c)"

definition markNotificationRead :: "jsid \<Rightarrow> component \<Rightarrow> component" where
  "markNotificationRead notificationId c =
     (case find (\<lambda>n. notif_id n = notificationId) (notifications c) of
        None \<Rightarrow> c
      | Some n \<Rightarrow>
          if \<not> is_read n then
            updateUnreadCount
              (c\<lparr> notifications :=
                   update_first (\<lambda>n. notif_id n = notificationId)
                     (\<lambda>n. n\<lparr> is_read := True \<rparr>) (notifications c) \<rparr>)
          else c)"

text \<open>The invariant: the counter is the number of notifications not read.\<close>

definition unread_inv :: "component \<Rightarrow> bool" where
  "unread_inv c \<longleftrightarrow> unreadCount c = length (filter (\<lambda>n. \<not> is_read n) (notifications c))"

definition sample_notification :: "int \<Rightarrow> bool \<Rightarrow> notification" where
  "sample_notification i r =
     \<lparr> notif_id = IdNum i, title = ''title'', message = ''message'', priority = ''low'',
       is_read = r, isNew = False, timeAgo = ''Just now'' \<rparr>"

section \<open>Rounding to a double\<close>

text \<open>Powers of two.\<close>

lemma pow2_pos [simp]: "0 < pow2 k"
  by (simp add: pow2_def)

lemma pow2_add: "pow2 (a + b) = pow2 a * pow2 b"
  by (simp add: pow2_def power_int_add)

lemma pow2_diff: "pow2 (a - b) = pow2 a / pow2 b"
  by (simp add: pow2_def power_int_diff)

lemma pow2_powr: "pow2 k = 2 powr (real_of_int k)"
  by (simp add: pow2_def powr_real_of_int')

lemma pow2_mono: "a \<le> b \<Longrightarrow> pow2 a \<le> pow2 b"
  by (simp add: pow2_powr)

lemma pow2_strict_mono: "a < b \<Longrightarrow> pow2 a < pow2 b"
  by (simp add: pow2_powr)

lemma pow2_nat: "0 \<le> k \<Longrightarrow> pow2 k = of_int (2 ^ nat k)"
  by (simp add: pow2_def power_int_def)

text \<open>Rounding to the nearest integer.\<close>

lemma round_even_int [simp]: "round_even (of_int k) = k"
  by (simp add: round_even_def)

lemma round_even_le: "q \<le> of_int j \<Longrightarrow> round_even q \<le> j"
proof -
  assume a: "q \<le> of_int j"
  show ?thesis
  proof (cases "q = of_int j")
    case True then show ?thesis by simp
  next
    case False
    with a have "q < of_int j" by simp
    then have "\<lfloor>q\<rfloor> < j" by (simp add: floor_less_iff)
    then show ?thesis by (simp add: round_even_def Let_def)
  qed
qed

lemma round_even_ge: "of_int j \<le> q \<Longrightarrow> j \<le> round_even q"
proof -
  assume "of_int j \<le> q"
  then have "j \<le> \<lfloor>q\<rfloor>" by (simp add: le_floor_iff)
  then show ?thesis by (simp add: round_even_def Let_def)
qed


text \<open>The exponent of the binade.\<close>

lemma expo_ge: "- 1022 \<le> expo x"
  by (simp add: expo_def)

lemma expo_upper: "x \<noteq> 0 \<Longrightarrow> \<bar>x\<bar> < pow2 (expo x + 1)"
proof -
  assume "x \<noteq> 0"
  then have pos: "0 < \<bar>x\<bar>" by simp
  have "\<bar>x\<bar> < 2 powr (real_of_int \<lfloor>log 2 \<bar>x\<bar>\<rfloor> + 1)"
    using floor_log_eq_powr_iff [of "\<bar>x\<bar>" 2 "\<lfloor>log 2 \<bar>x\<bar>\<rfloor>"] pos by simp
  also have "\<dots> = pow2 (\<lfloor>log 2 \<bar>x\<bar>\<rfloor> + 1)" by (simp add: pow2_powr)
  also have "\<dots> \<le> pow2 (expo x + 1)" by (rule pow2_mono) (simp add: expo_def)
  finally show ?thesis .
qed

lemma expo_lower: "x \<noteq> 0 \<Longrightarrow> expo x \<noteq> - 1022 \<Longrightarrow> pow2 (expo x) \<le> \<bar>x\<bar>"
proof -
  assume "x \<noteq> 0" and ne: "expo x \<noteq> - 1022"
  then have pos: "0 < \<bar>x\<bar>" by simp
  from ne have e: "expo x = \<lfloor>log 2 \<bar>x\<bar>\<rfloor>" by (simp add: expo_def max_def split: if_splits)
  have "2 powr (real_of_int \<lfloor>log 2 \<bar>x\<bar>\<rfloor>) \<le> \<bar>x\<bar>"
    using floor_log_eq_powr_iff [of "\<bar>x\<bar>" 2 "\<lfloor>log 2 \<bar>x\<bar>\<rfloor>"] pos by simp
  then show ?thesis by (simp add: e pow2_powr)
qed

lemma expo_eqI:
  assumes "pow2 e \<le> \<bar>x\<bar>" "\<bar>x\<bar> < pow2 (e + 1)" "- 1022 \<le> e"
  shows "expo x = e"
proof -
  have pos: "0 < \<bar>x\<bar>" using assms(1) pow2_pos [of e] by linarith
  have "\<lfloor>log 2 \<bar>x\<bar>\<rfloor> = e"
    using floor_log_eq_powr_iff [of "\<bar>x\<bar>" 2 e] pos assms(1,2) by (simp add: pow2_powr)
  then show ?thesis using assms(3) by (simp add: expo_def)
qed

lemma expo_subnormal:
  assumes "x \<noteq> 0" "\<bar>x\<bar> < pow2 (- 1022)"
  shows "expo x = - 1022"
proof (rule ccontr)
  assume "expo x \<noteq> - 1022"
  then have "pow2 (expo x) \<le> \<bar>x\<bar>" using assms(1) by (rule expo_lower [rotated])
  moreover have "pow2 (- 1022) \<le> pow2 (expo x)" by (rule pow2_mono) (rule expo_ge)
  ultimately show False using assms(2) by linarith
qed

lemma pow2_nonneg [simp]: "0 \<le> pow2 k"
  using pow2_pos [of k] by linarith

lemma abs_pow2 [simp]: "\<bar>pow2 k\<bar> = pow2 k"
  by (simp add: abs_of_pos)

lemma pow2_52: "pow2 e = of_int (2 ^ 52) * pow2 (e - 52)"
proof -
  have "pow2 e = pow2 52 * pow2 (e - 52)" by (simp flip: pow2_add)
  also have "pow2 52 = of_int (2 ^ 52)" by (simp add: pow2_def)
  finally show ?thesis .
qed

lemma pow2_52_neg: "- pow2 e = of_int (- (2 ^ 52)) * pow2 (e - 52)"
  using pow2_52 [of e] by simp

lemma pow2_int_mult: "0 \<le> k \<Longrightarrow> \<exists>j::int. of_int n * pow2 k = of_int j"
proof -
  assume "0 \<le> k"
  then have "of_int n * pow2 k = of_int (n * 2 ^ nat k)" by (simp add: pow2_nat)
  then show ?thesis by blast
qed

text \<open>
  Rounding never crosses a double: a double at or above \<open>x\<close> is at or above the double
  that \<open>x\<close> is rounded to, and likewise below. A double is rounded to itself.
\<close>

lemma double_on_grid:
  assumes "is_double c" "- 1022 \<le> e" "pow2 e \<le> \<bar>c\<bar> \<or> e = - 1022"
  shows "\<exists>j::int. c = of_int j * pow2 (e - 52)"
proof -
  from assms(1) obtain n k where n: "\<bar>n\<bar> < 2 ^ 53" and k: "- 1074 \<le> k" and c: "c = of_int n * pow2 k"
    unfolding is_double_def by blast
  have ge: "e - 52 \<le> k"
  proof (rule ccontr)
    assume "\<not> e - 52 \<le> k"
    then have lt: "k \<le> e - 53" by simp
    with k assms(3) have big: "pow2 e \<le> \<bar>c\<bar>" by auto
    have "\<bar>c\<bar> = \<bar>of_int n\<bar> * pow2 k" by (simp add: c abs_mult)
    also have "\<dots> < 2 ^ 53 * pow2 k"
    proof -
      have "\<bar>real_of_int n\<bar> < 2 ^ 53" using n by (metis of_int_abs of_int_less_numeral_power_cancel_iff)
      then show ?thesis by simp
    qed
    also have "\<dots> \<le> 2 ^ 53 * pow2 (e - 53)" using pow2_mono [OF lt] by simp
    also have "\<dots> = pow2 53 * pow2 (e - 53)" by (simp add: pow2_def)
    also have "\<dots> = pow2 e" by (simp flip: pow2_add)
    finally show False using big by simp
  qed
  then obtain j :: int where j: "of_int n * pow2 (k - (e - 52)) = of_int j"
    using pow2_int_mult [of "k - (e - 52)" n] by auto
  have "c = of_int n * (pow2 (k - (e - 52)) * pow2 (e - 52))"
    by (simp add: c flip: pow2_add)
  also have "\<dots> = of_int j * pow2 (e - 52)" using j by (simp flip: mult.assoc)
  finally show ?thesis by blast
qed

lemma flr_le_double:
  assumes "is_double c" "x \<le> c"
  shows "flr x \<le> c"
proof (cases "x = 0")
  case True
  with assms show ?thesis by (simp add: flr_def)
next
  case False
  let ?e = "expo x" and ?u = "pow2 (expo x - 52)"
  have u: "0 < ?u" by simp
  have f: "flr x = of_int (round_even (x / ?u)) * ?u" using False by (simp add: flr_def)
  show ?thesis
  proof (cases "pow2 ?e \<le> \<bar>c\<bar> \<or> ?e = - 1022")
    case True
    then obtain j :: int where j: "c = of_int j * ?u"
      using double_on_grid [OF assms(1) expo_ge, of x] by blast
    have "x / ?u \<le> of_int j" using assms(2) u by (simp add: j pos_divide_le_eq)
    then have "round_even (x / ?u) \<le> j" by (rule round_even_le)
    then have "of_int (round_even (x / ?u)) * ?u \<le> of_int j * ?u"
      using u by (simp add: mult_right_mono)
    then show ?thesis by (simp add: f j)
  next
    case False
    then have small: "\<bar>c\<bar> < pow2 ?e" and ne: "?e \<noteq> - 1022" by auto
    have big: "pow2 ?e \<le> \<bar>x\<bar>" using \<open>x \<noteq> 0\<close> ne by (rule expo_lower)
    have "x \<le> - pow2 ?e" using big small assms(2) by linarith
    also have "- pow2 ?e = of_int (- (2 ^ 52)) * ?u"
      by (rule pow2_52_neg)
    finally have "x / ?u \<le> of_int (- (2 ^ 52))" using u by (simp add: pos_divide_le_eq)
    then have "round_even (x / ?u) \<le> - (2 ^ 52)" by (rule round_even_le)
    then have "of_int (round_even (x / ?u)) * ?u \<le> of_int (- (2 ^ 52)) * ?u"
      using u by (intro mult_right_mono) simp_all
    also have "\<dots> = - pow2 ?e" by (rule pow2_52_neg [symmetric])
    finally show ?thesis using small by (simp add: f)
  qed
qed

lemma flr_ge_double:
  assumes "is_double c" "c \<le> x"
  shows "c \<le> flr x"
proof (cases "x = 0")
  case True
  with assms show ?thesis by (simp add: flr_def)
next
  case False
  let ?e = "expo x" and ?u = "pow2 (expo x - 52)"
  have u: "0 < ?u" by simp
  have f: "flr x = of_int (round_even (x / ?u)) * ?u" using False by (simp add: flr_def)
  show ?thesis
  proof (cases "pow2 ?e \<le> \<bar>c\<bar> \<or> ?e = - 1022")
    case True
    then obtain j :: int where j: "c = of_int j * ?u"
      using double_on_grid [OF assms(1) expo_ge, of x] by blast
    have "of_int j \<le> x / ?u" using assms(2) u by (simp add: j pos_le_divide_eq)
    then have "j \<le> round_even (x / ?u)" by (rule round_even_ge)
    then have "of_int j * ?u \<le> of_int (round_even (x / ?u)) * ?u"
      using u by (simp add: mult_right_mono)
    then show ?thesis by (simp add: f j)
  next
    case False
    then have small: "\<bar>c\<bar> < pow2 ?e" and ne: "?e \<noteq> - 1022" by auto
    have big: "pow2 ?e \<le> \<bar>x\<bar>" using \<open>x \<noteq> 0\<close> ne by (rule expo_lower)
    have "pow2 ?e \<le> x" using big small assms(2) by linarith
    moreover have "pow2 ?e = of_int (2 ^ 52) * ?u"
      by (rule pow2_52)
    ultimately have "of_int (2 ^ 52) \<le> x / ?u" using u by (simp add: pos_le_divide_eq)
    then have "2 ^ 52 \<le> round_even (x / ?u)" by (rule round_even_ge)
    then have le: "of_int (2 ^ 52) * ?u \<le> of_int (round_even (x / ?u)) * ?u"
      using u by (intro mult_right_mono) simp_all
    have "c < pow2 ?e" using small by linarith
    also have "pow2 ?e = of_int (2 ^ 52) * ?u" by (rule pow2_52)
    also note le
    finally show ?thesis by (simp add: f)
  qed
qed

lemma flr_double: "is_double c \<Longrightarrow> flr c = c"
  using flr_le_double [of c c] flr_ge_double [of c c] by simp

text \<open>Whole numbers of magnitude \<open>2^53\<close> at most are doubles, and arithmetic on them is exact.\<close>

lemma real_abs_lt_2_53: "\<bar>n\<bar> < 2 ^ 53 \<Longrightarrow> \<bar>real_of_int n\<bar> < 2 ^ 53" for n :: int
proof -
  assume "\<bar>n\<bar> < 2 ^ 53"
  then have "real_of_int \<bar>n\<bar> < real_of_int (2 ^ 53)" by (simp only: of_int_less_iff)
  then show ?thesis by simp
qed

lemma is_double_intI:
  "\<bar>n\<bar> < 2 ^ 53 \<Longrightarrow> - 1074 \<le> k \<Longrightarrow> k \<le> 971 \<Longrightarrow> is_double (of_int n * pow2 k)"
  unfolding is_double_def by blast

lemma pow2_0 [simp]: "pow2 0 = 1"
  by (simp add: pow2_def)

lemma is_double_int: "\<bar>n\<bar> \<le> 2 ^ 53 \<Longrightarrow> is_double (of_int n)"
proof -
  assume a: "\<bar>n\<bar> \<le> 2 ^ 53"
  show ?thesis
  proof (cases "\<bar>n\<bar> < 2 ^ 53")
    case True
    then have "is_double (of_int n * pow2 0)" by (intro is_double_intI) simp_all
    then show ?thesis by simp
  next
    case False
    with a have eq: "\<bar>n\<bar> = 2 ^ 53" by simp
    have p: "pow2 1 = 2" by (simp add: pow2_def)
    show ?thesis
    proof (cases "0 \<le> n")
      case True
      with eq have n: "n = 2 ^ 53" by simp
      have "is_double (of_int (2 ^ 52) * pow2 1)" by (intro is_double_intI) simp_all
      then show ?thesis by (simp add: n p)
    next
      case False
      with eq have n: "n = - (2 ^ 53)" by simp
      have "is_double (of_int (- (2 ^ 52)) * pow2 1)" by (intro is_double_intI) simp_all
      then show ?thesis by (simp add: n p)
    qed
  qed
qed

lemma pow2_neq0 [simp]: "pow2 k \<noteq> 0"
  using pow2_pos [of k] by linarith

lemma pow2_not_le0 [simp]: "\<not> pow2 k \<le> 0"
  using pow2_pos [of k] by linarith

lemma is_double_pow2_1023: "is_double (pow2 1023)" "is_double (- pow2 1023)"
proof -
  have "is_double (of_int (2 ^ 52) * pow2 (1023 - 52))" by (intro is_double_intI) simp_all
  then show "is_double (pow2 1023)" by (simp only: pow2_52 [symmetric])
  have "is_double (of_int (- (2 ^ 52)) * pow2 (1023 - 52))" by (intro is_double_intI) simp_all
  then show "is_double (- pow2 1023)" by (simp only: pow2_52_neg [symmetric])
qed

lemma flr_finite:
  assumes "\<bar>x\<bar> \<le> pow2 1023"
  shows "fl x = Fin (flr x)"
proof -
  have "x \<le> pow2 1023" "- pow2 1023 \<le> x" using assms by linarith+
  then have "flr x \<le> pow2 1023" "- pow2 1023 \<le> flr x"
    by (simp_all add: flr_le_double flr_ge_double is_double_pow2_1023)
  moreover have "pow2 1023 < pow2 1024" by (rule pow2_strict_mono) simp
  ultimately have "\<not> pow2 1024 \<le> flr x" "\<not> flr x \<le> - pow2 1024" by linarith+
  then show ?thesis by (simp add: fl_def Let_def)
qed

lemma double_bound: "is_double c \<Longrightarrow> \<bar>c\<bar> < pow2 1024"
proof -
  assume "is_double c"
  then obtain n k where n: "\<bar>n\<bar> < 2 ^ 53" and k: "k \<le> 971" and c: "c = of_int n * pow2 k"
    unfolding is_double_def by blast
  have "\<bar>c\<bar> = \<bar>of_int n\<bar> * pow2 k" by (simp add: c abs_mult)
  also have "\<dots> < 2 ^ 53 * pow2 k"
    using real_abs_lt_2_53 [OF n] by simp
  also have "\<dots> \<le> 2 ^ 53 * pow2 971" using pow2_mono [OF k] by simp
  also have "2 ^ 53 = pow2 53" by (simp add: pow2_def)
  also have "pow2 53 * pow2 971 = pow2 1024" by (simp flip: pow2_add)
  finally show ?thesis .
qed

lemma fl_double: "is_double c \<Longrightarrow> fl c = Fin c"
proof -
  assume d: "is_double c"
  have "\<bar>c\<bar> < pow2 1024" using d by (rule double_bound)
  then have "\<not> pow2 1024 \<le> c" "\<not> c \<le> - pow2 1024" by linarith+
  then show ?thesis using flr_double [OF d] by (simp add: fl_def Let_def)
qed

lemma fl_int: "\<bar>n\<bar> \<le> 2 ^ 53 \<Longrightarrow> fl (of_int n) = Fin (of_int n)"
  by (rule fl_double) (rule is_double_int)



text \<open>
  The double of a given number, from its binade and its significand: the rule by which
  the doubles of the examples are checked.
\<close>

lemma fl_eval:
  assumes "pow2 e \<le> \<bar>x\<bar>" "\<bar>x\<bar> < pow2 (e + 1)" "- 1022 \<le> e" "e < 1023"
    and "round_even (x / pow2 (e - 52)) = n"
  shows "fl x = Fin (of_int n * pow2 (e - 52))"
proof -
  have nz: "x \<noteq> 0" using assms(1) pow2_pos [of e] by auto
  have e: "expo x = e" using assms(1-3) by (rule expo_eqI)
  have "pow2 (e + 1) \<le> pow2 1023" using assms(4) by (intro pow2_mono) simp
  then have "\<bar>x\<bar> \<le> pow2 1023" using assms(2) by linarith
  then have "fl x = Fin (flr x)" by (rule flr_finite)
  then show ?thesis using nz by (simp add: flr_def e assms(5))
qed

lemma fl_evalI:
  assumes "pow2 e \<le> \<bar>x\<bar>" "\<bar>x\<bar> < pow2 (e + 1)" "- 1022 \<le> e" "e < 1023"
    and "round_even (x / pow2 (e - 52)) = n" and "y = of_int n * pow2 (e - 52)"
  shows "fl x = Fin y"
  using fl_eval [OF assms(1-5)] assms(6) by simp

text \<open>Small whole numbers as doubles.\<close>

lemma fl_0 [simp]: "fl 0 = Fin 0"
  using fl_int [of 0] by simp

lemma fl_1 [simp]: "fl 1 = Fin 1"
  using fl_int [of 1] by simp

lemma fl_numeral [simp]: "(numeral n :: int) \<le> 2 ^ 53 \<Longrightarrow> fl (numeral n) = Fin (numeral n)"
  using fl_int [of "numeral n"] by simp

lemma fl_neg_numeral [simp]:
  "(numeral n :: int) \<le> 2 ^ 53 \<Longrightarrow> fl (- numeral n) = Fin (- numeral n)"
  using fl_int [of "- numeral n"] by simp

lemma fl_neg_1 [simp]: "fl (- 1) = Fin (- 1)"
  using fl_int [of "- 1"] by simp

lemma fl_of_nat: "n \<le> 2 ^ 53 \<Longrightarrow> fl (real n) = Fin (real n)"
  using fl_int [of "int n"] by simp

section \<open>Properties of \<open>calculateKPIs\<close>\<close>

lemma or_else_zero: "or_else x (Fin 0) = field_or_zero x"
  by (auto simp: or_else_def truthy_field_def truthy_number_def field_or_zero_def
           split: option.splits number.splits)

lemma reduce_field_rows:
  "reduce_field f (map Some rows) acc = Some (foldl jadd acc (map (\<lambda>r. field_or_zero (f r)) rows))"
  by (induction rows arbitrary: acc) (simp_all add: or_else_zero)

lemma reduce_field_null:
  "None \<in> set items \<Longrightarrow> reduce_field f items acc = None"
  by (induction f items acc rule: reduce_field.induct) auto

lemma growth_block_rows:
  "growth_block (map Some rows) =
     Some (if length rows \<ge> 2 \<and> jgt (field_or_zero (total_visits (hd rows))) (Fin 0)
           then jmul (jdiv (jsub (field_or_zero (total_visits (last rows)))
                                 (field_or_zero (total_visits (hd rows))))
                           (field_or_zero (total_visits (hd rows)))) (Fin 100)
           else Fin 0)"
  by (cases rows)
     (auto simp: growth_block_def visits_at_def last_conv_nth hd_conv_nth nth_Cons or_else_zero
           split: nat.splits)

lemma round2_0 [simp]: "round2 (Fin 0) = Fin 0"
  by (simp add: round2_def)


lemma kpis_try_rows_Some: "\<exists>k. kpis_try (map Some rows) = Some k"
  by (simp add: kpis_try_def reduce_field_rows growth_block_rows Let_def)

lemma kpis_try_None_iff: "kpis_try items = None \<longleftrightarrow> None \<in> set items"
proof
  assume "None \<in> set items"
  then show "kpis_try items = None" by (simp add: kpis_try_def reduce_field_null)
next
  assume a: "kpis_try items = None"
  show "None \<in> set items"
  proof (rule ccontr)
    assume "None \<notin> set items"
    then have "items = map Some (map the items)"
      by (induction items) auto
    then obtain rows where "items = map Some rows" ..
    with a kpis_try_rows_Some [of rows] show False by simp
  qed
qed


































text \<open>
  Claim C4. If an exception is raised during the computation, that is, if one leaves the
  \<open>try\<close> block, the summary that \<open>calculateKPIs\<close> stores is exactly the all-zero
  summary, and nothing else of the state changes. An exception is raised exactly when
  some element of the analytics is not an object, whatever the elements before it have
  added to the sums. The summary stored is always either the all-zero one or the one
  that the finished block has built: no partly computed summary is stored.
\<close>

theorem C4_fail_closed:
  "(kpis_try (analytics s) = None \<longrightarrow> calculateKPIs s = s\<lparr> kpis := zero_kpis \<rparr>) \<and>
   (kpis_try (analytics s) = None \<longleftrightarrow> None \<in> set (analytics s)) \<and>
   (kpis (calculateKPIs s) = zero_kpis \<or> kpis_try (analytics s) = Some (kpis (calculateKPIs s)))"
proof -
  have closed: "calculateKPIs s = s\<lparr> kpis := zero_kpis \<rparr>" if "kpis_try (analytics s) = None"
    using that by (simp add: calculateKPIs_def)
  have raised: "kpis_try (analytics s) = None \<longleftrightarrow> None \<in> set (analytics s)"
    by (rule kpis_try_None_iff)
  have whole: "kpis (calculateKPIs s) = zero_kpis \<or>
               kpis_try (analytics s) = Some (kpis (calculateKPIs s))"
    by (cases "kpis_try (analytics s)") (simp_all add: calculateKPIs_def)
  from closed raised whole show ?thesis by blast
qed

text \<open>
  C4 at a row with 10 visits followed by \<open>null\<close>: the sum has reached 10 when the
  exception is raised, and the summary stored is all zero.
\<close>

theorem C4_fail_closed_witness:
  "kpis_try [Some (visits_row 10), None] = None \<and>
   calculateKPIs \<lparr> analytics = [Some (visits_row 10), None], kpis = zero_kpis \<rparr> =
     \<lparr> analytics = [Some (visits_row 10), None], kpis = zero_kpis \<rparr>"
proof -
  let ?s = "\<lparr> analytics = [Some (visits_row 10), None], kpis = zero_kpis \<rparr>"
  have h: "kpis_try (analytics ?s) = None"
    by (simp add: kpis_try_def)
  have "calculateKPIs ?s = ?s\<lparr> kpis := zero_kpis \<rparr>"
    using h C4_fail_closed [of ?s] by blast
  then show ?thesis using h by simp
qed

section \<open>Properties of \<open>validateTrackingData\<close>\<close>

lemma valid_point_iff:
  "valid_point point \<longleftrightarrow>
     spec_retained point \<and> latitude point \<noteq> Some 0 \<and> longitude point \<noteq> Some 0"
  by (auto simp: valid_point_def spec_retained_def truthy_def num_def split: option.splits)

text \<open>
  Claim C5 says that a point is retained when both coordinates are present and in range
  and the accuracy, if present, is at most 1000. The code tests the coordinates with
  \<open>!point.latitude\<close> and \<open>!point.longitude\<close>, which also hold of the number 0: the
  point at latitude 0 and longitude 10 meets the claim's conditions and is dropped.
\<close>

theorem C5_zero_coordinate_counterexample:
  "spec_retained (point_at 0 10 None) \<and> validateTrackingData [point_at 0 10 None] = []"
  by (simp add: spec_retained_def point_at_def validateTrackingData_def valid_point_def truthy_def)

text \<open>
  Claim C5, amended. \<open>validateTrackingData\<close> retains exactly the points whose latitude
  and longitude are both present and not 0, whose latitude lies in \<open>[-90, 90]\<close> and
  longitude in \<open>[-180, 180]\<close>, and whose accuracy, when present, does not exceed 1000;
  the retained points keep their relative order.
\<close>

theorem C5_validity_filter:
  "validateTrackingData data =
     filter (\<lambda>point. spec_retained point \<and> latitude point \<noteq> Some 0 \<and> longitude point \<noteq> Some 0) data"
  unfolding validateTrackingData_def
  by (rule filter_cong [OF refl]) (simp add: valid_point_iff)

text \<open>
  The examples of C5: the point with latitude 95 and the point with accuracy 1500 are
  dropped, the point with accuracy 50 is kept, and the points kept are in their order.
\<close>

theorem C5_validity_filter_witness:
  "validateTrackingData
     [point_at 95 46 None, point_at 24 46 (Some 1500), point_at 24 46 (Some 50),
      point_at 0 10 None, point_at 25 47 None] =
     [point_at 24 46 (Some 50), point_at 25 47 None]"
  using C5_validity_filter
          [of "[point_at 95 46 None, point_at 24 46 (Some 1500), point_at 24 46 (Some 50),
                point_at 0 10 None, point_at 25 47 None]"]
  by (simp add: spec_retained_def point_at_def)

section \<open>Properties of the visit classifiers\<close>

text \<open>The doubles that the examples compute.\<close>

lemma visit_fl_1: "fl (1033 / 100) = Fin (5815273018842153 / 562949953421312)"
  by (rule fl_evalI [where e = "3" and n = "5815273018842153"])
     (simp_all add: pow2_def round_even_def)

lemma visit_fl_2: "fl (- (179369999999 / 100)) = Fin (- (7523323084758057 / 4194304))"
  by (rule fl_evalI [where e = "30" and n = "- 7523323084758057"])
     (simp_all add: pow2_def round_even_def)

lemma visit_fl_3: "fl (- (2507774361586019 / 83886080)) = Fin (- (8024877957075261 / 268435456))"
  by (rule fl_evalI [where e = "24" and n = "- 8024877957075261"])
     (simp_all add: pow2_def round_even_def)

lemma visit_fl_4: "fl (179370124799 / 100) = Fin (7523328319249449 / 4194304)"
  by (rule fl_evalI [where e = "30" and n = "7523328319249449"])
     (simp_all add: pow2_def round_even_def)

lemma visit_fl_5: "fl (2507776106416483 / 83886080) = Fin (4012441770266373 / 134217728)"
  by (rule fl_evalI [where e = "24" and n = "8024883540532746"])
     (simp_all add: pow2_def round_even_def)

lemma visit_fl_6: "fl (1337480590088791 / 2684354560) = Fin (4279937888284131 / 8589934592)"
  by (rule fl_evalI [where e = "18" and n = "8559875776568262"])
     (simp_all add: pow2_def round_even_def)

lemma visit_fl_7: "fl (106998447207103275 / 2147483648) = Fin (6687402950443955 / 134217728)"
  by (rule fl_evalI [where e = "25" and n = "6687402950443955"])
     (simp_all add: pow2_def round_even_def)

lemma visit_fl_8: "fl (1 / 60) = Fin (4803839602528529 / 288230376151711744)"
  by (rule fl_evalI [where e = "- 6" and n = "4803839602528529"])
     (simp_all add: pow2_def round_even_def)

lemma visit_fl_9: "fl (120095990063213225 / 72057594037927936) = Fin (7505999378950827 / 4503599627370496)"
  by (rule fl_evalI [where e = "0" and n = "7505999378950827"])
     (simp_all add: pow2_def round_even_def)

lemmas visit_fl = visit_fl_1 visit_fl_2 visit_fl_3 visit_fl_4 visit_fl_5 visit_fl_6 visit_fl_7
  visit_fl_8 visit_fl_9

lemmas visit_eval = a_visit_def example_host_def day_start_def planned_Date_def clip_time_def
  max_time_def time_number_def minutes_between_def truthy_number_def jle_def jgt_def
  Math_min_def or_else_def truthy_field_def visit_fl

text \<open>
  Claim C6 at a visit as the component itself records it. \<open>startVisit\<close> writes the hour
  of the day into \<open>actual_start_time\<close>: 10.33 for a start at 10:19:48.
  \<open>getVisitTimeStatus\<close> passes that number to \<open>new Date\<close>, which reads it as 10
  milliseconds after the epoch. For the visit planned at 10:00 the start lies 19.8
  minutes after the planned time, which the claim classifies as late; the code
  classifies it as early. A start time that is no date at all gives \<open>late\<close>, whatever
  the planned time.
\<close>

theorem C6_hour_float_start:
  "new_Date example_host (Num (fl 10.33)) = Some 10 \<and>
   planned_Date example_host (day_start + 37248000)
     (a_visit ''completed'' (Str ''10:00'') (Num (fl 10.33)) None) = Some (day_start + 36000000) \<and>
   getVisitTimeStatus example_host (day_start + 37248000)
     (a_visit ''completed'' (Str ''10:00'') (Num (fl 10.33)) None) = ''early'' \<and>
   new_Date example_host (Str ''10:20'') = None \<and>
   getVisitTimeStatus example_host (day_start + 37248000)
     (a_visit ''completed'' (Str ''10:00'') (Str ''10:20'') None) = ''late''"
  by (simp add: getVisitTimeStatus_def visit_eval)

text \<open>
  Claim C7 at a visit as the component itself records it: in progress, started at
  10:19:48, which \<open>startVisit\<close> has written as the hour 10.33, with an expected
  duration of 60 minutes. One minute after the start the claim's formula gives
  \<open>(1 / 60) * 100\<close>, less than 2; the code, which passes the hour to \<open>new Date\<close>,
  takes the visit to have started 10 milliseconds after the epoch and returns 95.
\<close>

theorem C7_hour_float_start:
  "new_Date example_host (Num (fl 10.33)) = Some 10 \<and>
   calculateVisitProgress example_host (day_start + 37248000)
     (a_visit ''in_progress'' (Str ''10:00'') (Num (fl 10.33)) (Some (Fin 60))) = Fin 95 \<and>
   jlt (Math_min (jmul (jdiv (minutes_between (Fin (of_int (day_start + 37248000)))
                                              (Fin (of_int (day_start + 37188000))))
                             (Fin 60)) (Fin 100)) (Fin 95)) (Fin 2)"
  by (simp add: calculateVisitProgress_def visit_eval)

section \<open>Properties of \<open>calculateDistance\<close> and \<open>estimateTravelTime\<close>\<close>




























































section \<open>Properties of the reconnection\<close>

text \<open>
  A chain of reconnections that starts at a counter of \<open>n\<close> sets the timers of the
  attempts \<open>n + 1\<close>, \<open>n + 2\<close> and so on, as long as \<open>connectToBus\<close> throws and the
  counter is below 5.
\<close>

lemma attemptReconnection_below:
  "reconnectAttempts c < maxReconnectAttempts \<Longrightarrow>
   attemptReconnection c =
     (Some (backoff_delay (reconnectAttempts c + 1)),
      c\<lparr> reconnectAttempts := reconnectAttempts c + 1,
         reconnectTimeout := Some (backoff_delay (reconnectAttempts c + 1)) \<rparr>)"
  by (simp add: attemptReconnection_def backoff_delay_def Let_def)

lemma attemptReconnection_exhausted:
  "reconnectAttempts c \<ge> maxReconnectAttempts \<Longrightarrow>
   attemptReconnection c = (None, c\<lparr> connectionStatus := ''error'' \<rparr>)"
  by (simp add: attemptReconnection_def)

lemma chain_prefix:
  "\<exists>m. m \<le> maxReconnectAttempts - reconnectAttempts c \<and>
       fst (reconnection_chain throws c) =
         map (\<lambda>i. backoff_delay (reconnectAttempts c + 1 + i)) [0 ..< m]"
proof (induction throws c rule: reconnection_chain.induct)
  case (1 throws c)
  show ?case
  proof (cases "reconnectAttempts c \<ge> maxReconnectAttempts")
    case True
    then show ?thesis
      by (subst reconnection_chain.simps) (simp add: attemptReconnection_exhausted)
  next
    case False
    then have lt: "reconnectAttempts c < maxReconnectAttempts" by simp
    let ?c1 = "c\<lparr> reconnectAttempts := reconnectAttempts c + 1,
                   reconnectTimeout := Some (backoff_delay (reconnectAttempts c + 1)) \<rparr>"
    have att: "attemptReconnection c = (Some (backoff_delay (reconnectAttempts c + 1)), ?c1)"
      using lt by (rule attemptReconnection_below)
    show ?thesis
    proof (cases "throws (reconnectAttempts c + 1)")
      case False
      then have "fst (reconnection_chain throws c) = [backoff_delay (reconnectAttempts c + 1)]"
        by (subst reconnection_chain.simps) (simp add: att connectToBus_def)
      then show ?thesis using lt
        by (intro exI [of _ 1]) simp
    next
      case True
      let ?c2 = "?c1\<lparr> connectionStatus := ''error'' \<rparr>"
      have con: "connectToBus (throws (reconnectAttempts ?c1)) ?c1 = (True, ?c2)"
        using True by (simp add: connectToBus_def)
      from "1.IH" [OF att [symmetric] refl con [symmetric] refl]
      obtain m where m: "m \<le> maxReconnectAttempts - reconnectAttempts ?c2"
        and ds: "fst (reconnection_chain throws ?c2) =
                   map (\<lambda>i. backoff_delay (reconnectAttempts ?c2 + 1 + i)) [0 ..< m]"
        by blast
      have "fst (reconnection_chain throws c) =
              backoff_delay (reconnectAttempts c + 1) # fst (reconnection_chain throws ?c2)"
        using True by (subst reconnection_chain.simps) (simp add: att connectToBus_def split: prod.splits)
      then have "fst (reconnection_chain throws c) =
              map (\<lambda>i. backoff_delay (reconnectAttempts c + 1 + i)) [0 ..< Suc m]"
        using ds by (simp only: map_upt_Suc) simp
      moreover have "Suc m \<le> maxReconnectAttempts - reconnectAttempts c"
        using m lt by simp
      ultimately show ?thesis by blast
    qed
  qed
qed

lemma chain_all_throw:
  "(\<forall>n. throws n) \<Longrightarrow>
   fst (reconnection_chain throws c) =
     map (\<lambda>i. backoff_delay (reconnectAttempts c + 1 + i))
         [0 ..< maxReconnectAttempts - reconnectAttempts c] \<and>
   connectionStatus (snd (reconnection_chain throws c)) = ''error'' \<and>
   reconnectAttempts (snd (reconnection_chain throws c)) \<ge> maxReconnectAttempts"
proof (induction throws c rule: reconnection_chain.induct)
  case (1 throws c)
  show ?case
  proof (cases "reconnectAttempts c \<ge> maxReconnectAttempts")
    case True
    then show ?thesis
      by (subst (1 2 3) reconnection_chain.simps) (simp add: attemptReconnection_exhausted)
  next
    case False
    then have lt: "reconnectAttempts c < maxReconnectAttempts" by simp
    let ?c1 = "c\<lparr> reconnectAttempts := reconnectAttempts c + 1,
                   reconnectTimeout := Some (backoff_delay (reconnectAttempts c + 1)) \<rparr>"
    let ?c2 = "?c1\<lparr> connectionStatus := ''error'' \<rparr>"
    have att: "attemptReconnection c = (Some (backoff_delay (reconnectAttempts c + 1)), ?c1)"
      using lt by (rule attemptReconnection_below)
    have thr: "throws (reconnectAttempts c + 1)" using "1.prems" by simp
    have con: "connectToBus (throws (reconnectAttempts ?c1)) ?c1 = (True, ?c2)"
      using thr by (simp add: connectToBus_def)
    note ih = "1.IH" [OF att [symmetric] refl con [symmetric] refl "1.prems"]
    have unf: "reconnection_chain throws c =
                 (backoff_delay (reconnectAttempts c + 1) # fst (reconnection_chain throws ?c2),
                  snd (reconnection_chain throws ?c2))"
      using thr by (subst reconnection_chain.simps) (simp add: att connectToBus_def split: prod.splits)
    have len: "maxReconnectAttempts - reconnectAttempts c = Suc (maxReconnectAttempts - reconnectAttempts ?c2)"
      using lt by simp
    show ?thesis
      unfolding unf len using ih by (simp only: map_upt_Suc) simp
  qed
qed

text \<open>
  Claim C9 says that the delay of the \<open>k\<close>-th attempt is \<open>min(1000 * 2^(k-1), 30000)\<close>,
  which is 1000 for the first. The code raises the counter before it computes the delay:
  the first delay is 2000.
\<close>

theorem C9_first_delay_counterexample:
  "fst (attemptReconnection initial_component) = Some 2000 \<and>
   min (1000 * 2 ^ (1 - 1)) 30000 = (1000::nat)"
  by (simp add: attemptReconnection_def initial_component_def maxReconnectAttempts_def Let_def)

lemma upt_from: "map f [n + 1 ..< 6] = map (\<lambda>i. f (n + 1 + i)) [0 ..< 5 - n]" for n :: nat
proof (cases "n \<le> 5")
  case True
  then have "[n + 1 ..< 6] = map (\<lambda>i. i + (n + 1)) [0 ..< 5 - n]"
    by (simp only: map_add_upt) simp
  then show ?thesis by (simp add: o_def add.commute)
next
  case False
  then show ?thesis by simp
qed

text \<open>
  Claim C9, amended. The attempts are counted since the bus last reported \<open>connect\<close>,
  which sets the counter to 0. A chain of reconnections that starts at a counter of
  \<open>n\<close> sets at most \<open>5 - n\<close> timers, and the delay of the timer that raises the counter
  to \<open>k\<close> is \<open>min(1000 * 2^k, 30000)\<close>; when every attempt fails these are the delays
  for \<open>k\<close> from \<open>n + 1\<close> to 5, after which the connection status is \<open>error\<close>, and a
  further call of \<open>attemptReconnection\<close> sets no timer and leaves the status \<open>error\<close>.
  A drop reported by the bus sets the timer that \<open>attemptReconnection\<close> sets at the
  counter as it stands.
\<close>

theorem C9_reconnection_backoff:
  "length (fst (reconnection_chain throws c)) \<le> 5 - reconnectAttempts c \<and>
   (\<forall>i. i < length (fst (reconnection_chain throws c)) \<longrightarrow>
        fst (reconnection_chain throws c) ! i =
          min (1000 * 2 ^ (reconnectAttempts c + 1 + i)) 30000) \<and>
   ((\<forall>n. throws n) \<longrightarrow>
      fst (reconnection_chain throws c) =
        map (\<lambda>k. min (1000 * 2 ^ k) 30000) [reconnectAttempts c + 1 ..< 6] \<and>
      connectionStatus (snd (reconnection_chain throws c)) = ''error'' \<and>
      fst (attemptReconnection (snd (reconnection_chain throws c))) = None \<and>
      connectionStatus (snd (attemptReconnection (snd (reconnection_chain throws c)))) = ''error'') \<and>
   reconnectAttempts (on_bus_connect c) = 0 \<and>
   fst (on_bus_disconnect c) = fst (attemptReconnection c)"
proof -
  obtain m where m: "m \<le> maxReconnectAttempts - reconnectAttempts c"
    and ds: "fst (reconnection_chain throws c) =
               map (\<lambda>i. backoff_delay (reconnectAttempts c + 1 + i)) [0 ..< m]"
    using chain_prefix by blast
  have len: "length (fst (reconnection_chain throws c)) \<le> 5 - reconnectAttempts c"
    using m ds by (simp add: maxReconnectAttempts_def)
  have nth: "fst (reconnection_chain throws c) ! i =
               min (1000 * 2 ^ (reconnectAttempts c + 1 + i)) 30000"
    if "i < length (fst (reconnection_chain throws c))" for i
    using that ds by (simp add: backoff_delay_def)
  have all: "fst (reconnection_chain throws c) =
        map (\<lambda>k. min (1000 * 2 ^ k) 30000) [reconnectAttempts c + 1 ..< 6] \<and>
        connectionStatus (snd (reconnection_chain throws c)) = ''error'' \<and>
        fst (attemptReconnection (snd (reconnection_chain throws c))) = None \<and>
        connectionStatus (snd (attemptReconnection (snd (reconnection_chain throws c)))) = ''error''"
    if "\<forall>n. throws n"
  proof -
    from chain_all_throw [OF that, of c]
    have a: "fst (reconnection_chain throws c) =
               map (\<lambda>i. backoff_delay (reconnectAttempts c + 1 + i)) [0 ..< 5 - reconnectAttempts c]"
      and b: "connectionStatus (snd (reconnection_chain throws c)) = ''error''"
      and c: "reconnectAttempts (snd (reconnection_chain throws c)) \<ge> maxReconnectAttempts"
      by (simp_all add: maxReconnectAttempts_def)
    have "fst (reconnection_chain throws c) =
            map (\<lambda>k. min (1000 * 2 ^ k) 30000) [reconnectAttempts c + 1 ..< 6]"
      unfolding a upt_from by (simp add: backoff_delay_def)
    with b attemptReconnection_exhausted [OF c] show ?thesis by simp
  qed
  have reset: "reconnectAttempts (on_bus_connect c) = 0"
    by (simp add: on_bus_connect_def)
  have drop: "fst (on_bus_disconnect c) = fst (attemptReconnection c)"
    by (simp add: on_bus_disconnect_def attemptReconnection_def Let_def)
  from len nth all reset drop show ?thesis by blast
qed

text \<open>
  C9 with every attempt failing: from the component as \<open>setup\<close> leaves it the delays
  are 2000, 4000, 8000, 16000 and 30000; from a component whose counter stands at 1,
  where the bus has not reported \<open>connect\<close> since the first attempt, they are 4000,
  8000, 16000 and 30000.
\<close>

theorem C9_reconnection_backoff_witness:
  "fst (reconnection_chain (\<lambda>n. True) initial_component) = [2000, 4000, 8000, 16000, 30000] \<and>
   connectionStatus (snd (reconnection_chain (\<lambda>n. True) initial_component)) = ''error'' \<and>
   reconnectAttempts (snd (attemptReconnection initial_component)) = 1 \<and>
   fst (reconnection_chain (\<lambda>n. True) (snd (attemptReconnection initial_component))) =
     [4000, 8000, 16000, 30000] \<and>
   fst (on_bus_disconnect (snd (attemptReconnection initial_component))) = Some 4000 \<and>
   fst (on_bus_disconnect (on_bus_connect (snd (attemptReconnection initial_component)))) = Some 2000"
proof -
  let ?c1 = "snd (attemptReconnection initial_component)"
  have n0: "reconnectAttempts initial_component = 0" by (simp add: initial_component_def)
  have n1: "reconnectAttempts ?c1 = 1"
    by (simp add: attemptReconnection_def initial_component_def maxReconnectAttempts_def Let_def)
  have r0: "[reconnectAttempts initial_component + 1 ..< 6] = [1, 2, 3, 4, 5]"
    unfolding n0 by (simp add: upt_rec)
  have r1: "[reconnectAttempts ?c1 + 1 ..< 6] = [2, 3, 4, 5]"
    unfolding n1 by (simp add: upt_rec)
  have a: "fst (reconnection_chain (\<lambda>n. True) initial_component) = [2000, 4000, 8000, 16000, 30000] \<and>
           connectionStatus (snd (reconnection_chain (\<lambda>n. True) initial_component)) = ''error''"
    using C9_reconnection_backoff [of "\<lambda>n. True" initial_component] unfolding r0 by simp
  have b: "fst (reconnection_chain (\<lambda>n. True) ?c1) = [4000, 8000, 16000, 30000]"
    using C9_reconnection_backoff [of "\<lambda>n. True" ?c1] unfolding r1 by simp
  have c: "fst (on_bus_disconnect ?c1) = Some 4000"
    using C9_reconnection_backoff [of "\<lambda>n. True" ?c1] n1
    by (simp add: attemptReconnection_def maxReconnectAttempts_def Let_def)
  have d: "fst (on_bus_disconnect (on_bus_connect ?c1)) = Some 2000"
    using C9_reconnection_backoff [of "\<lambda>n. True" "on_bus_connect ?c1"]
    by (simp add: attemptReconnection_def maxReconnectAttempts_def Let_def on_bus_connect_def)
  from a n1 b c d show ?thesis by blast
qed

section \<open>Properties of the unread counter\<close>

lemma unread_inv_updateUnreadCount: "unread_inv (updateUnreadCount c)"
  by (simp add: unread_inv_def updateUnreadCount_def)

lemma unread_inv_handleError: "unread_inv c \<Longrightarrow> unread_inv (handleError network c)"
  by (simp add: unread_inv_def handleError_def attemptReconnection_def Let_def)

lemma unread_inv_markAllAsRead_settled:
  "unread_inv c \<Longrightarrow> unread_inv (markAllAsRead_settled res ids c)"
  by (cases res) (simp_all add: markAllAsRead_settled_def unread_inv_updateUnreadCount)

text \<open>
  Claim C10. The unread counter is an invariant of the component: it holds of the
  component as \<open>setup\<close> leaves it, and where it holds, it holds again after each of
  \<open>loadNotifications\<close>, \<open>addNewNotification\<close>, \<open>markAsRead\<close>, \<open>markAllAsRead\<close>
  (also when other operations have run while its \<open>write\<close> was awaited) and
  \<open>markNotificationRead\<close>: \<open>unreadCount\<close> equals the number of notifications in the
  list whose \<open>is_read\<close> flag is false.
\<close>

theorem C10_unread_count_invariant:
  "unread_inv initial_component \<and>
   (unread_inv c \<longrightarrow>
      unread_inv (loadNotifications getTimeAgo isRecent loaded c) \<and>
      unread_inv (addNewNotification notificationData c) \<and>
      unread_inv (markAsRead written notificationId c) \<and>
      unread_inv (markAllAsRead written c) \<and>
      unread_inv (markAllAsRead_settled written ids c) \<and>
      unread_inv (markNotificationRead notificationId c))"
proof -
  have init: "unread_inv initial_component"
    by (simp add: unread_inv_def initial_component_def)
  have load: "unread_inv (loadNotifications getTimeAgo isRecent loaded c)" if "unread_inv c"
  proof (cases loaded)
    case (Resolved rows)
    then show ?thesis
      by (simp add: loadNotifications_def Let_def unread_inv_def updateUnreadCount_def)
  next
    case (Rejected network)
    then show ?thesis using unread_inv_handleError [OF that, of network]
      by (simp add: loadNotifications_def unread_inv_def)
  qed
  have add: "unread_inv (addNewNotification notificationData c)"
    by (simp add: addNewNotification_def Let_def unread_inv_updateUnreadCount)
  have mark: "unread_inv (markAsRead written notificationId c)" if "unread_inv c"
    using that by (cases written) (simp_all add: markAsRead_def unread_inv_updateUnreadCount)
  have settled: "unread_inv (markAllAsRead_settled written ids c)" if "unread_inv c" for ids
    using that by (rule unread_inv_markAllAsRead_settled)
  have markAll: "unread_inv (markAllAsRead written c)" if "unread_inv c"
    using that settled by (simp add: markAllAsRead_def Let_def)
  have local: "unread_inv (markNotificationRead notificationId c)" if "unread_inv c"
    using that
    by (simp add: markNotificationRead_def unread_inv_updateUnreadCount split: option.splits)
  from init load add mark markAll settled local show ?thesis by blast
qed

text \<open>
  C10 at the first notification that arrives, which makes the counter 1, and at its being
  read, which makes it 0.
\<close>

theorem C10_unread_count_invariant_witness:
  "unread_inv (addNewNotification (sample_notification 1 False) initial_component) \<and>
   unreadCount (addNewNotification (sample_notification 1 False) initial_component) = 1 \<and>
   unread_inv (markNotificationRead (IdNum 1)
     (addNewNotification (sample_notification 1 False) initial_component)) \<and>
   unreadCount (markNotificationRead (IdNum 1)
     (addNewNotification (sample_notification 1 False) initial_component)) = 0"
proof -
  let ?c = "addNewNotification (sample_notification 1 False) initial_component"
  have h: "unread_inv initial_component"
    using C10_unread_count_invariant by blast
  have a: "unread_inv ?c"
    using h C10_unread_count_invariant [of initial_component _ _ _ "sample_notification 1 False"]
    by blast
  have b: "unread_inv (markNotificationRead (IdNum 1) ?c)"
    using a C10_unread_count_invariant [of ?c _ _ _ _ _ "IdNum 1"] by blast
  have c: "unreadCount ?c = 1"
    by (simp add: addNewNotification_def updateUnreadCount_def sample_notification_def
                  initial_component_def Let_def)
  have d: "unreadCount (markNotificationRead (IdNum 1) ?c) = 0"
    by (simp add: markNotificationRead_def addNewNotification_def updateUnreadCount_def
                  sample_notification_def initial_component_def Let_def)
  from a b c d show ?thesis by simp
qed

end
